theory Spec2Isabelle
  imports Complex_Main
begin

section \<open>The force-mode example of the UR client library\<close>

text \<open>
  This theory embeds \<^verbatim>\<open>examples/force_mode_example.cpp\<close>: the program-state
  callback \<^verbatim>\<open>handleRobotProgramState\<close>, the blocking wait
  \<^verbatim>\<open>waitForProgramRunning\<close>, the helper \<^verbatim>\<open>sendFreedriveMessageOrDie\<close>
  and \<^verbatim>\<open>main\<close>. The library objects behind \<^verbatim>\<open>g_my_driver\<close> and
  \<^verbatim>\<open>g_my_dashboard\<close> are not part of the file; what their methods return is
  supplied by an environment record, and every call that \<^verbatim>\<open>main\<close> makes is
  recorded, with the value it returned, in a trace of events.
\<close>

subsection \<open>The program-state monitor\<close>

text \<open>
  The shared state is the global \<^verbatim>\<open>bool g_program_running\<close> (zero-initialised,
  so \<open>False\<close> at program start), guarded by \<^verbatim>\<open>g_program_running_mutex\<close>.
  The callback returns the new value of the flag and whether it called
  \<^verbatim>\<open>g_program_running_cv.notify_one()\<close>.
\<close>

definition handleRobotProgramState :: "bool \<Rightarrow> bool \<Rightarrow> bool \<times> bool" where
  "handleRobotProgramState program_running g_program_running =
     (if program_running then (program_running, True)
      else (g_program_running, False))"

datatype cv_status = no_timeout | timeout

text \<open>
  What can happen while a thread is blocked in \<^verbatim>\<open>wait_for\<close>: the network
  thread delivers a notification (it runs the callback above), or the condition
  variable wakes the waiter spuriously, which \<^verbatim>\<open>std::condition_variable\<close>
  permits. Each event carries the number of milliseconds after the start of the wait
  at which it happens.
\<close>

datatype wait_event = Notification bool | SpuriousWakeup

text \<open>
  \<^verbatim>\<open>g_program_running_cv.wait_for(lk, std::chrono::milliseconds(milliseconds))\<close>,
  the overload without a predicate: it releases the lock, blocks until it is notified,
  woken spuriously, or the relative timeout expires, and takes the lock again. The
  result is the status, the time spent blocked in milliseconds, and the flag as the
  waiter finds it afterwards.
\<close>

fun wait_for :: "int \<Rightarrow> bool \<Rightarrow> (nat \<times> wait_event) list \<Rightarrow> cv_status \<times> int \<times> bool" where
  "wait_for milliseconds g_program_running [] = (timeout, max 0 milliseconds, g_program_running)"
| "wait_for milliseconds g_program_running ((t, ev) # evs) =
     (if milliseconds \<le> int t then (timeout, max 0 milliseconds, g_program_running)
      else case ev of
        SpuriousWakeup \<Rightarrow> (no_timeout, int t, g_program_running)
      | Notification b \<Rightarrow>
          (case handleRobotProgramState b g_program_running of
             (running', notified) \<Rightarrow>
               if notified then (no_timeout, int t, running')
               else wait_for milliseconds running' evs))"

record wait_outcome =
  returned :: bool
  blocked_ms :: int
  running_after :: bool

definition waitForProgramRunning :: "int \<Rightarrow> bool \<Rightarrow> (nat \<times> wait_event) list \<Rightarrow> wait_outcome" where
  "waitForProgramRunning milliseconds g_program_running evs =
     (case wait_for milliseconds g_program_running evs of
        (status, elapsed, running') \<Rightarrow>
          \<lparr>returned = (if status = no_timeout \<or> running' = True then True else False),
           blocked_ms = elapsed,
           running_after = running'\<rparr>)"

subsection \<open>Constants of the example\<close>

definition DEFAULT_ROBOT_IP :: string where
  "DEFAULT_ROBOT_IP = ''192.168.56.101''"

definition SCRIPT_FILE :: string where
  "SCRIPT_FILE = ''resources/external_control.urscript''"

definition OUTPUT_RECIPE :: string where
  "OUTPUT_RECIPE = ''examples/resources/rtde_output_recipe.txt''"

definition INPUT_RECIPE :: string where
  "INPUT_RECIPE = ''examples/resources/rtde_input_recipe.txt''"

definition CALIBRATION_CHECKSUM :: string where
  "CALIBRATION_CHECKSUM = ''calib_12788084448423163542''"

subsection \<open>The force-mode call\<close>

text \<open>
  The arguments of one \<^verbatim>\<open>g_my_driver->startForceMode(...)\<close> call, in the order
  the call site writes them. The seventh argument exists in one of the two call sites
  only, so it is optional here. The \<^verbatim>\<open>double\<close> literals are kept as the
  decimal numbers the source writes; nothing is computed with them.
\<close>

record force_mode_args =
  task_frame :: "real list"
  selection_vector :: "nat list"
  wrench :: "real list"
  force_type :: nat
  limits :: "real list"
  damping_factor :: real
  gain_scaling :: "real option"

text \<open>
  Lines 178 to 194 of the source: the test on \<^verbatim>\<open>getVersion().major\<close> and the
  two call sites, each with its own literals.
\<close>

definition startForceMode_call :: "nat \<Rightarrow> force_mode_args" where
  "startForceMode_call major =
     (if major < 5
      then \<lparr>task_frame = [0, 0, 0, 0, 0, 0],
            selection_vector = [0, 0, 1, 0, 0, 1],
            wrench = [0, 0, -2, 0, 0, 0],
            force_type = 2,
            limits = [0.1, 0.1, 1.5, 3.14, 3.14, 0.5],
            damping_factor = 0.005,
            gain_scaling = None\<rparr>
      else \<lparr>task_frame = [0, 0, 0, 0, 0, 0],
            selection_vector = [0, 0, 1, 0, 0, 1],
            wrench = [0, 0, -2, 0, 0, 0],
            force_type = 2,
            limits = [0.1, 0.1, 1.5, 3.14, 3.14, 0.5],
            damping_factor = 0.005,
            gain_scaling = Some 1.0\<rparr>)"

subsection \<open>Events, environment and outcome of a run\<close>

text \<open>
  Each call of \<^verbatim>\<open>main\<close> into the library is one event; where the call returns
  a \<^verbatim>\<open>bool\<close>, the event carries the value returned.
\<close>

datatype event =
    DashboardConnect string bool
  | CommandStop bool
  | CreateDriver string string string string bool
  | CheckCalibration string bool
  | WaitForProgramRunning int bool
  | GetVersion nat
  | StartForceMode force_mode_args bool
  | WriteKeepalive bool
  | SleepFor nat
  | EndForceMode bool
  | WriteFreedriveControlMessage bool
  | LogError string
  | LogInfo string

text \<open>
  What the world outside the file answers. \<open>stoi\<close> is \<^verbatim>\<open>std::stoi\<close>
  (\<open>None\<close> when it throws); \<open>early_notifications\<close> are the callback invocations
  the network thread makes between the construction of the driver and the moment
  \<^verbatim>\<open>waitForProgramRunning\<close> takes the lock; \<open>wait_events\<close> is what happens
  while the wait is blocked; \<open>clock k\<close> is the time in nanoseconds between
  \<^verbatim>\<open>stopwatch_last\<close> and the reading of \<^verbatim>\<open>steady_clock::now()\<close> in
  iteration \<open>k\<close> of the heartbeat loop.

  The heartbeat loop computes with \<^verbatim>\<open>double\<close>. A finite \<^verbatim>\<open>double\<close> is
  modelled as the real number it denotes, so comparing two of them is comparing the
  reals. What the floating-point unit rounds to is supplied by the environment:
  \<open>double_seconds n\<close> is the \<^verbatim>\<open>double\<close> that the conversion of a clock
  difference of \<open>n\<close> nanoseconds to \<^verbatim>\<open>std::chrono::duration<double>\<close> yields,
  and \<open>double_add x y\<close> is the \<^verbatim>\<open>double\<close> that \<^verbatim>\<open>x + y\<close> yields. Nothing
  is assumed of either.
\<close>

record env =
  stoi :: "string \<Rightarrow> int option"
  connect_result :: bool
  commandStop_result :: bool
  checkCalibration_result :: bool
  early_notifications :: "bool list"
  wait_events :: "(nat \<times> wait_event) list"
  version_major :: nat
  startForceMode_result :: bool
  writeKeepalive_result :: "nat \<Rightarrow> bool"
  endForceMode_result :: bool
  clock :: "nat \<Rightarrow> nat"
  double_seconds :: "nat \<Rightarrow> real"
  double_add :: "real \<Rightarrow> real \<Rightarrow> real"

text \<open>
  How a run ends: the process exits with a code, it is terminated by an exception
  nobody catches, or it is still in the heartbeat loop when the fuel is used up.
\<close>

datatype outcome = Exit int "event list" | Terminate "event list" | Running "event list"

fun exit_code :: "outcome \<Rightarrow> int option" where
  "exit_code (Exit c tr) = Some c"
| "exit_code (Terminate tr) = None"
| "exit_code (Running tr) = None"

fun trace :: "outcome \<Rightarrow> event list" where
  "trace (Exit c tr) = tr"
| "trace (Terminate tr) = tr"
| "trace (Running tr) = tr"

subsection \<open>sendFreedriveMessageOrDie\<close>

text \<open>
  The helper of lines 75 to 83; \<open>ret\<close> is what
  \<^verbatim>\<open>writeFreedriveControlMessage\<close> returns. \<open>Some c\<close> in the second component
  is the call \<^verbatim>\<open>exit(c)\<close>; \<open>None\<close> is the normal return.
\<close>

definition sendFreedriveMessageOrDie :: "bool \<Rightarrow> event list \<times> int option" where
  "sendFreedriveMessageOrDie ret =
     (if \<not> ret
      then ([WriteFreedriveControlMessage ret,
             LogError ''Could not send joint command. Is the robot in remote control?''],
            Some 1)
      else ([WriteFreedriveControlMessage ret], None))"

subsection \<open>The heartbeat loop\<close>

text \<open>
  Lines 201 to 213. \<open>time_done\<close> and \<open>timeout_s\<close> (the source's
  \<^verbatim>\<open>timeout\<close>) are \<^verbatim>\<open>std::chrono::duration<double>\<close>, seconds held in a
  \<^verbatim>\<open>double\<close>. Line 210, \<^verbatim>\<open>time_done += stopwatch_now - stopwatch_last\<close>,
  converts the clock difference to \<^verbatim>\<open>double\<close> seconds and adds it in
  \<^verbatim>\<open>double\<close> arithmetic; both roundings are the environment's. The loop may run
  forever, so it takes fuel: \<open>None\<close> says that the loop is still running after
  \<open>fuel\<close> iterations, \<open>Some n\<close> that it left after \<open>n\<close> iterations. The results
  of \<^verbatim>\<open>writeKeepalive\<close> are recorded in the events and read nowhere, as in the
  source.
\<close>

fun heartbeat_loop :: "nat \<Rightarrow> env \<Rightarrow> real \<Rightarrow> int \<Rightarrow> real \<Rightarrow> nat \<Rightarrow> nat option" where
  "heartbeat_loop 0 e timeout_s second_to_run time_done k = None"
| "heartbeat_loop (Suc fuel) e timeout_s second_to_run time_done k =
     (if time_done < timeout_s \<or> second_to_run = 0
      then heartbeat_loop fuel e timeout_s second_to_run
             (double_add e time_done (double_seconds e (clock e k))) (Suc k)
      else Some k)"

definition iteration_events :: "env \<Rightarrow> nat \<Rightarrow> event list" where
  "iteration_events e k = [WriteKeepalive (writeKeepalive_result e k), SleepFor 2]"

definition loop_events :: "env \<Rightarrow> nat \<Rightarrow> event list" where
  "loop_events e n = concat (map (iteration_events e) [0..<n])"

text \<open>
  \<^verbatim>\<open>time_done(0)\<close> is 0.0, and \<^verbatim>\<open>timeout(second_to_run)\<close> is the number of
  seconds as a \<^verbatim>\<open>double\<close>: \<^verbatim>\<open>std::stoi\<close> returns an \<^verbatim>\<open>int\<close>, and every
  \<^verbatim>\<open>int\<close> is a \<^verbatim>\<open>double\<close>, so this conversion does not round.
\<close>

definition heartbeat_stage :: "nat \<Rightarrow> env \<Rightarrow> int \<Rightarrow> event list \<Rightarrow> outcome" where
  "heartbeat_stage fuel e second_to_run tr =
     (case heartbeat_loop fuel e (real_of_int second_to_run) second_to_run 0 0 of
        None \<Rightarrow> Running (tr @ loop_events e fuel)
      | Some n \<Rightarrow>
          Exit 0 (tr @ loop_events e n @
                  [LogInfo ''Timeout reached.'', EndForceMode (endForceMode_result e)]))"

subsection \<open>main\<close>

text \<open>Lines 174 to 199: the version test, the force-mode call and the test of its result.\<close>

definition force_mode_stage :: "nat \<Rightarrow> env \<Rightarrow> int \<Rightarrow> event list \<Rightarrow> outcome" where
  "force_mode_stage fuel e second_to_run tr =
     (if \<not> startForceMode_result e
      then Exit 1 (tr @ [GetVersion (version_major e),
                         StartForceMode (startForceMode_call (version_major e))
                           (startForceMode_result e),
                         LogError ''Failed to start force mode.''])
      else heartbeat_stage fuel e second_to_run
             (tr @ [GetVersion (version_major e),
                    StartForceMode (startForceMode_call (version_major e))
                      (startForceMode_result e)]))"

text \<open>
  The flag as \<^verbatim>\<open>waitForProgramRunning\<close> finds it: \<open>False\<close> at program start,
  then every early notification passed through the callback.
\<close>

definition running_before_wait :: "env \<Rightarrow> bool" where
  "running_before_wait e =
     foldl (\<lambda>g b. fst (handleRobotProgramState b g)) False (early_notifications e)"

definition wait_in_main :: "env \<Rightarrow> wait_outcome" where
  "wait_in_main e = waitForProgramRunning 100 (running_before_wait e) (wait_events e)"

text \<open>Lines 165 to 170: the readiness wait with its default of 100 milliseconds.\<close>

definition wait_stage :: "nat \<Rightarrow> env \<Rightarrow> int \<Rightarrow> event list \<Rightarrow> outcome" where
  "wait_stage fuel e second_to_run tr =
     (if \<not> returned (wait_in_main e)
      then Exit 1 (tr @ [WaitForProgramRunning 100 (returned (wait_in_main e)),
                         LogError ''External Control script not running.''])
      else force_mode_stage fuel e second_to_run
             (tr @ [WaitForProgramRunning 100 (returned (wait_in_main e))]))"

definition calibration_report :: "event list" where
  "calibration_report =
     [LogError ''Calibration checksum does not match actual robot.'',
      LogError (''Use the ur_calibration tool to extract the correct calibration from the robot and pass that into '' @
                ''the description. See '' @
                ''[https://github.com/UniversalRobots/Universal_Robots_ROS_Driver#extract-calibration-information] '' @
                ''for details.'')]"

text \<open>Lines 150 to 163: the driver is constructed (headless) and the calibration checked.\<close>

definition driver_stage :: "nat \<Rightarrow> env \<Rightarrow> string \<Rightarrow> int \<Rightarrow> event list \<Rightarrow> outcome" where
  "driver_stage fuel e robot_ip second_to_run tr =
     wait_stage fuel e second_to_run
       (tr @ [CreateDriver robot_ip SCRIPT_FILE OUTPUT_RECIPE INPUT_RECIPE True,
              CheckCalibration CALIBRATION_CHECKSUM (checkCalibration_result e)]
           @ (if \<not> checkCalibration_result e then calibration_report else []))"

text \<open>Lines 113 to 127: the dashboard connection and the stop command.\<close>

definition dashboard_stage :: "nat \<Rightarrow> env \<Rightarrow> string \<Rightarrow> int \<Rightarrow> outcome" where
  "dashboard_stage fuel e robot_ip second_to_run =
     (if \<not> connect_result e
      then Exit 1 [DashboardConnect robot_ip (connect_result e),
                   LogError ''Could not connect to dashboard'']
      else if \<not> commandStop_result e
      then Exit 1 [DashboardConnect robot_ip (connect_result e),
                   CommandStop (commandStop_result e),
                   LogError ''Could not send stop program command'']
      else driver_stage fuel e robot_ip second_to_run
             [DashboardConnect robot_ip (connect_result e),
              CommandStop (commandStop_result e)])"

text \<open>
  Lines 96 to 111, then the stages above. \<open>argv\<close> holds the \<^verbatim>\<open>argc\<close> arguments,
  the program name first. An exception of \<^verbatim>\<open>std::stoi\<close> is caught nowhere, so
  it terminates the process. Falling off the end of \<^verbatim>\<open>main\<close> is exit code 0.
\<close>

definition robot_ip_of :: "string list \<Rightarrow> string" where
  "robot_ip_of argv = (if length argv > 1 then argv ! 1 else DEFAULT_ROBOT_IP)"

definition second_to_run_of :: "env \<Rightarrow> string list \<Rightarrow> int option" where
  "second_to_run_of e argv = (if length argv > 2 then stoi e (argv ! 2) else Some 0)"

definition main :: "nat \<Rightarrow> env \<Rightarrow> string list \<Rightarrow> outcome" where
  "main fuel e argv =
     (case second_to_run_of e argv of
        None \<Rightarrow> Terminate []
      | Some second_to_run \<Rightarrow> dashboard_stage fuel e (robot_ip_of argv) second_to_run)"

subsection \<open>Observations on a run\<close>

text \<open>
  The functions below are not part of the program; they read a trace. \<open>mode_starts\<close>
  collects the payloads of the force-mode start calls, in order.
\<close>

fun mode_starts :: "event list \<Rightarrow> force_mode_args list" where
  "mode_starts [] = []"
| "mode_starts (StartForceMode a r # tr) = a # mode_starts tr"
| "mode_starts (ev # tr) = mode_starts tr"

text \<open>
  The value of \<^verbatim>\<open>time_done\<close> after \<open>n\<close> iterations of the heartbeat loop:
  0.0, then one execution of line 210 per iteration.
\<close>

primrec time_done_after :: "env \<Rightarrow> nat \<Rightarrow> real" where
  "time_done_after e 0 = 0"
| "time_done_after e (Suc n) =
     double_add e (time_done_after e n) (double_seconds e (clock e n))"

text \<open>
  The events of \<^verbatim>\<open>main\<close> up to the readiness wait, up to the force-mode call, and
  up to the heartbeat loop.
\<close>

definition trace_before_wait :: "env \<Rightarrow> string list \<Rightarrow> event list" where
  "trace_before_wait e argv =
     [DashboardConnect (robot_ip_of argv) (connect_result e),
      CommandStop (commandStop_result e),
      CreateDriver (robot_ip_of argv) SCRIPT_FILE OUTPUT_RECIPE INPUT_RECIPE True,
      CheckCalibration CALIBRATION_CHECKSUM (checkCalibration_result e)]
     @ (if \<not> checkCalibration_result e then calibration_report else [])"

definition trace_before_force_mode :: "env \<Rightarrow> string list \<Rightarrow> event list" where
  "trace_before_force_mode e argv =
     trace_before_wait e argv @ [WaitForProgramRunning 100 (returned (wait_in_main e))]"

definition trace_before_heartbeat :: "env \<Rightarrow> string list \<Rightarrow> event list" where
  "trace_before_heartbeat e argv =
     trace_before_force_mode e argv @
       [GetVersion (version_major e),
        StartForceMode (startForceMode_call (version_major e)) (startForceMode_result e)]"

fun is_keepalive :: "event \<Rightarrow> bool" where
  "is_keepalive (WriteKeepalive r) = True"
| "is_keepalive ev = False"

fun is_calibration_event :: "event \<Rightarrow> bool" where
  "is_calibration_event (CheckCalibration c r) = True"
| "is_calibration_event (LogError m) = (LogError m \<in> set calibration_report)"
| "is_calibration_event ev = False"

fun is_error_report :: "event \<Rightarrow> bool" where
  "is_error_report (LogError m) = True"
| "is_error_report ev = False"

fun prepend :: "event list \<Rightarrow> outcome \<Rightarrow> outcome" where
  "prepend tr (Exit c tr') = Exit c (tr @ tr')"
| "prepend tr (Terminate tr') = Terminate (tr @ tr')"
| "prepend tr (Running tr') = Running (tr @ tr')"

text \<open>
  A run in which every call succeeds: the robot reports the script running 10 ms into
  the wait, the firmware is version 5, \<^verbatim>\<open>std::stoi\<close> reads one second, and each
  clock reading is half a second after the one before. Half a second and the
  multiples of it that this run adds up are \<^verbatim>\<open>double\<close> values, so on them the
  conversion and the addition of \<^verbatim>\<open>double\<close> are the exact ones.
\<close>

definition nominal_env :: env where
  "nominal_env =
     \<lparr>stoi = (\<lambda>s. Some 1),
      connect_result = True,
      commandStop_result = True,
      checkCalibration_result = True,
      early_notifications = [],
      wait_events = [(10, Notification True)],
      version_major = 5,
      startForceMode_result = True,
      writeKeepalive_result = (\<lambda>k. True),
      endForceMode_result = True,
      clock = (\<lambda>k. 500000000),
      double_seconds = (\<lambda>n. real n / 1000000000),
      double_add = (\<lambda>x y. x + y)\<rparr>"

text \<open>
  The same run with clock readings of a tenth of a second, where \<^verbatim>\<open>double\<close>
  arithmetic is not exact. The \<^verbatim>\<open>double\<close> nearest to 0.1 is
  \<open>3602879701896397 / 2 ^ 55\<close>. The table lists, for each value that
  \<^verbatim>\<open>time_done\<close> takes in this run, the \<^verbatim>\<open>double\<close> that adding this number
  to it yields in IEEE 754 binary64 arithmetic, rounding to nearest.
\<close>

definition tenth_second_sums :: "(real \<times> real) list" where
  "tenth_second_sums =
     [(0, 3602879701896397 / 36028797018963968),
      (3602879701896397 / 36028797018963968, 3602879701896397 / 18014398509481984),
      (3602879701896397 / 18014398509481984, 1351079888211149 / 4503599627370496),
      (1351079888211149 / 4503599627370496, 3602879701896397 / 9007199254740992),
      (3602879701896397 / 9007199254740992, 1 / 2),
      (1 / 2, 5404319552844595 / 9007199254740992),
      (5404319552844595 / 9007199254740992, 3152519739159347 / 4503599627370496),
      (3152519739159347 / 4503599627370496, 7205759403792793 / 9007199254740992),
      (7205759403792793 / 9007199254740992, 2026619832316723 / 2251799813685248),
      (2026619832316723 / 2251799813685248, 9007199254740991 / 9007199254740992),
      (9007199254740991 / 9007199254740992, 4953959590107545 / 4503599627370496)]"

definition tenth_second_env :: env where
  "tenth_second_env =
     nominal_env\<lparr>clock := (\<lambda>k. 100000000),
                 double_seconds := (\<lambda>n. 3602879701896397 / 36028797018963968),
                 double_add := (\<lambda>x y. case map_of tenth_second_sums x of
                                          Some z \<Rightarrow> z | None \<Rightarrow> x + y)\<rparr>"

section \<open>Properties\<close>

subsection \<open>Evaluation and unfolding lemmas\<close>

lemma heartbeat_loop_unfold:
  "heartbeat_loop fuel e T s td k =
     (if fuel = 0 then None
      else if td < T \<or> s = 0
      then heartbeat_loop (fuel - 1) e T s (double_add e td (double_seconds e (clock e k))) (Suc k)
      else Some k)"
  by (cases fuel) simp_all

lemma time_done_after_unfold:
  "time_done_after e n =
     (if n = 0 then 0
      else double_add e (time_done_after e (n - 1)) (double_seconds e (clock e (n - 1))))"
  by (cases n) simp_all

lemmas run_eval = main_def second_to_run_of_def robot_ip_of_def dashboard_stage_def driver_stage_def
  wait_stage_def wait_in_main_def running_before_wait_def waitForProgramRunning_def
  handleRobotProgramState_def force_mode_stage_def heartbeat_stage_def loop_events_def
  iteration_events_def nominal_env_def heartbeat_loop_unfold trace_before_wait_def
  trace_before_force_mode_def trace_before_heartbeat_def calibration_report_def

subsection \<open>The stages of main\<close>

lemma main_reaches_wait:
  "second_to_run_of e argv = Some s \<Longrightarrow> connect_result e \<Longrightarrow> commandStop_result e \<Longrightarrow>
   main fuel e argv = wait_stage fuel e s (trace_before_wait e argv)"
  by (simp add: main_def dashboard_stage_def driver_stage_def trace_before_wait_def)

lemma main_reaches_force_mode:
  "second_to_run_of e argv = Some s \<Longrightarrow> connect_result e \<Longrightarrow> commandStop_result e \<Longrightarrow>
   returned (wait_in_main e) \<Longrightarrow>
   main fuel e argv = force_mode_stage fuel e s (trace_before_force_mode e argv)"
  by (simp add: main_reaches_wait wait_stage_def trace_before_force_mode_def)

lemma main_reaches_heartbeat:
  "second_to_run_of e argv = Some s \<Longrightarrow> connect_result e \<Longrightarrow> commandStop_result e \<Longrightarrow>
   returned (wait_in_main e) \<Longrightarrow> startForceMode_result e \<Longrightarrow>
   main fuel e argv = heartbeat_stage fuel e s (trace_before_heartbeat e argv)"
  by (simp add: main_reaches_force_mode force_mode_stage_def trace_before_heartbeat_def)

text \<open>Each stage only appends to the trace it is handed.\<close>

lemma exit_code_prepend: "exit_code (prepend tr out) = exit_code out"
  by (cases out) simp_all

lemma trace_prepend: "trace (prepend tr out) = tr @ trace out"
  by (cases out) simp_all

lemma heartbeat_stage_prepend:
  "heartbeat_stage fuel e s tr = prepend tr (heartbeat_stage fuel e s [])"
  by (simp add: heartbeat_stage_def split: option.splits)

lemma wait_stage_prepend:
  "wait_stage fuel e s tr = prepend tr (wait_stage fuel e s [])"
  by (simp add: wait_stage_def force_mode_stage_def heartbeat_stage_def split: option.splits)

subsection \<open>Force-mode start calls in a trace\<close>

lemma mode_starts_append: "mode_starts (xs @ ys) = mode_starts xs @ mode_starts ys"
  by (induction xs rule: mode_starts.induct) simp_all

lemma mode_starts_loop_events: "mode_starts (loop_events e n) = []"
  by (induction n) (simp_all add: loop_events_def iteration_events_def mode_starts_append)

lemma mode_starts_before_wait: "mode_starts (trace_before_wait e argv) = []"
  by (simp add: trace_before_wait_def calibration_report_def)

lemma mode_starts_heartbeat_stage:
  "mode_starts (trace (heartbeat_stage fuel e s tr)) = mode_starts tr"
  by (simp add: heartbeat_stage_def mode_starts_append mode_starts_loop_events split: option.splits)

lemma mode_starts_force_mode_stage:
  "mode_starts (trace (force_mode_stage fuel e s tr)) =
     mode_starts tr @ [startForceMode_call (version_major e)]"
  by (simp add: force_mode_stage_def mode_starts_append mode_starts_heartbeat_stage)

lemma mode_starts_wait_stage:
  "mode_starts (trace (wait_stage fuel e s tr)) =
     mode_starts tr @
     (if returned (wait_in_main e) then [startForceMode_call (version_major e)] else [])"
  by (simp add: wait_stage_def mode_starts_append mode_starts_force_mode_stage)

lemma mode_starts_main_early_exit:
  "second_to_run_of e argv = None \<or> \<not> connect_result e \<or> \<not> commandStop_result e \<Longrightarrow>
   mode_starts (trace (main fuel e argv)) = []"
  by (auto simp add: main_def dashboard_stage_def split: option.splits)

subsection \<open>The heartbeat loop\<close>






lemma error_reports_loop_events: "filter is_error_report (loop_events e n) = []"
  by (induction n) (simp_all add: loop_events_def iteration_events_def)


text \<open>
  Clock readings of a tenth of a second and a run duration of one second: after ten
  iterations \<^verbatim>\<open>time_done\<close> is just below 1, so the loop makes an eleventh.
\<close>

lemma tenth_second_run:
  "time_done_after tenth_second_env 10 = 9007199254740991 / 9007199254740992 \<and>
   heartbeat_loop 20 tenth_second_env 1 1 0 0 = Some 11 \<and>
   exit_code (main 20 tenth_second_env [''prog'', ''192.168.56.101'', ''1'']) = Some 0 \<and>
   length (filter is_keepalive
     (trace (main 20 tenth_second_env [''prog'', ''192.168.56.101'', ''1'']))) = 11"
  by (simp add: run_eval time_done_after_unfold tenth_second_env_def tenth_second_sums_def)

text \<open>The loop reads the clock and the two roundings of the environment, nothing else.\<close>

lemma heartbeat_loop_cong:
  "clock e' = clock e \<Longrightarrow> double_seconds e' = double_seconds e \<Longrightarrow>
   double_add e' = double_add e \<Longrightarrow>
   heartbeat_loop fuel e' T s td k = heartbeat_loop fuel e T s td k"
  by (induction fuel arbitrary: td k) simp_all

subsection \<open>The condition-variable wait\<close>

lemma wait_for_blocked_le: "fst (snd (wait_for ms g evs)) \<le> max 0 ms"
  by (induction ms g evs rule: wait_for.induct)
     (auto simp: handleRobotProgramState_def split: wait_event.splits)

lemma wait_for_keeps_running: "snd (snd (wait_for ms True evs)) = True"
  by (induction ms "True" evs rule: wait_for.induct)
     (auto simp: handleRobotProgramState_def split: wait_event.splits)

lemma wait_for_quiet:
  "\<forall>(t, ev) \<in> set evs. ev = Notification False \<Longrightarrow>
   wait_for ms g evs = (timeout, max 0 ms, g)"
  by (induction ms g evs rule: wait_for.induct)
     (auto simp: handleRobotProgramState_def split: wait_event.splits)

text \<open>
  When nothing wakes the waiter (no notification with value \<open>True\<close> and no spurious
  wakeup), the wait started with the flag \<open>False\<close> lasts the whole timeout and
  returns \<open>False\<close>.
\<close>

lemma wait_times_out_when_quiet:
  "\<forall>(t, ev) \<in> set evs. ev = Notification False \<Longrightarrow>
   waitForProgramRunning T False evs =
     \<lparr>returned = False, blocked_ms = max 0 T, running_after = False\<rparr>"
  by (simp add: waitForProgramRunning_def wait_for_quiet)

text \<open>
  When the flag was set before the wait is called, the wait returns \<open>True\<close> whatever
  happens while it is blocked, after at most its timeout; when nothing wakes it, it is
  blocked for the whole timeout.
\<close>

lemma wait_after_early_notification:
  "returned (waitForProgramRunning ms (fst (handleRobotProgramState True g)) evs) = True \<and>
   blocked_ms (waitForProgramRunning ms (fst (handleRobotProgramState True g)) evs) \<le> max 0 ms \<and>
   ((\<forall>(t, ev) \<in> set evs. ev = Notification False) \<longrightarrow>
     blocked_ms (waitForProgramRunning ms (fst (handleRobotProgramState True g)) evs) = max 0 ms)"
proof -
  have g: "fst (handleRobotProgramState True g) = True"
    by (simp add: handleRobotProgramState_def)
  obtain st el r where w: "wait_for ms True evs = (st, el, r)"
    by (cases "wait_for ms True evs") auto
  have "r = True" using wait_for_keeps_running [of ms evs] w by simp
  moreover have "el \<le> max 0 ms" using wait_for_blocked_le [of ms True evs] w by simp
  moreover have "(\<forall>(t, ev) \<in> set evs. ev = Notification False) \<longrightarrow> el = max 0 ms"
    using wait_for_quiet [of evs ms True] w by auto
  ultimately show ?thesis
    by (simp add: g waitForProgramRunning_def w)
qed

subsection \<open>Results that main does not read\<close>

lemma loop_events_calibration_independent:
  "loop_events (e\<lparr>checkCalibration_result := b\<rparr>) n = loop_events e n"
proof -
  have "iteration_events (e\<lparr>checkCalibration_result := b\<rparr>) = iteration_events e"
    by (rule ext) (simp add: iteration_events_def)
  then show ?thesis by (simp add: loop_events_def)
qed

lemma wait_stage_calibration_independent:
  "wait_stage fuel (e\<lparr>checkCalibration_result := b\<rparr>) s tr = wait_stage fuel e s tr"
  by (simp add: wait_stage_def wait_in_main_def running_before_wait_def force_mode_stage_def
      heartbeat_stage_def loop_events_calibration_independent
      heartbeat_loop_cong [of "e\<lparr>checkCalibration_result := b\<rparr>" e] split: option.splits)

text \<open>
  Whatever \<^verbatim>\<open>writeKeepalive\<close> and \<^verbatim>\<open>endForceMode\<close> return, the exit code and
  the errors logged are the same.
\<close>

lemma main_ignores_keepalive_results:
  "exit_code (main fuel (e\<lparr>writeKeepalive_result := f, endForceMode_result := b\<rparr>) argv) =
     exit_code (main fuel e argv) \<and>
   filter is_error_report
     (trace (main fuel (e\<lparr>writeKeepalive_result := f, endForceMode_result := b\<rparr>) argv)) =
     filter is_error_report (trace (main fuel e argv))"
  by (simp add: main_def second_to_run_of_def dashboard_stage_def driver_stage_def wait_stage_def
      wait_in_main_def running_before_wait_def force_mode_stage_def heartbeat_stage_def
      error_reports_loop_events
      heartbeat_loop_cong [of "e\<lparr>writeKeepalive_result := f, endForceMode_result := b\<rparr>" e]
      split: option.splits)

section \<open>The claims\<close>

subsection \<open>C1: the gain-scaling argument is gated by the firmware version\<close>

text \<open>
  C1. In every run that gets past the readiness wait, \<^verbatim>\<open>main\<close> reads the firmware
  version and then makes exactly one force-mode start call; the events up to and
  including that call are the version read followed directly by the call. The payload
  of the call has no gain-scaling argument when the major version is below 5, and has
  the gain-scaling argument 1.0 when it is 5 or above.
\<close>

theorem C1_gain_scaling_version_gated:
  assumes "second_to_run_of e argv = Some s" and "connect_result e" and "commandStop_result e"
    and "returned (wait_in_main e)"
  shows "mode_starts (trace (main fuel e argv)) = [startForceMode_call (version_major e)] \<and>
         take (length (trace_before_heartbeat e argv)) (trace (main fuel e argv)) =
           trace_before_heartbeat e argv \<and>
         (version_major e < 5 \<longrightarrow> gain_scaling (startForceMode_call (version_major e)) = None) \<and>
         (5 \<le> version_major e \<longrightarrow> gain_scaling (startForceMode_call (version_major e)) = Some 1)"
proof -
  have m: "main fuel e argv = wait_stage fuel e s (trace_before_wait e argv)"
    using assms by (simp add: main_reaches_wait)
  have starts: "mode_starts (trace (main fuel e argv)) = [startForceMode_call (version_major e)]"
    using assms(4) by (simp add: m mode_starts_wait_stage mode_starts_before_wait)
  have f: "main fuel e argv = force_mode_stage fuel e s (trace_before_force_mode e argv)"
    using assms by (rule main_reaches_force_mode)
  have pre: "take (length (trace_before_heartbeat e argv)) (trace (main fuel e argv)) =
           trace_before_heartbeat e argv"
    by (simp add: f force_mode_stage_def heartbeat_stage_prepend [of _ _ _ "_ @ _"] trace_prepend
        trace_before_heartbeat_def)
  have gain: "(version_major e < 5 \<longrightarrow> gain_scaling (startForceMode_call (version_major e)) = None) \<and>
         (5 \<le> version_major e \<longrightarrow> gain_scaling (startForceMode_call (version_major e)) = Some 1)"
    by (simp add: startForceMode_call_def)
  show ?thesis using starts pre gain by blast
qed

theorem C1_gain_scaling_version_gated_witness:
  "map gain_scaling (mode_starts (trace (main 10 (nominal_env\<lparr>version_major := 3\<rparr>) [''prog'']))) =
     [None] \<and>
   map gain_scaling (mode_starts (trace (main 10 nominal_env [''prog'']))) = [Some 1]"
proof -
  have a: "second_to_run_of (nominal_env\<lparr>version_major := 3\<rparr>) [''prog''] = Some 0"
    "connect_result (nominal_env\<lparr>version_major := 3\<rparr>)"
    "commandStop_result (nominal_env\<lparr>version_major := 3\<rparr>)"
    "returned (wait_in_main (nominal_env\<lparr>version_major := 3\<rparr>))"
    by (simp_all add: run_eval)
  have b: "second_to_run_of nominal_env [''prog''] = Some 0"
    "connect_result nominal_env" "commandStop_result nominal_env"
    "returned (wait_in_main nominal_env)"
    by (simp_all add: run_eval)
  have v: "version_major (nominal_env\<lparr>version_major := 3\<rparr>) = 3" "version_major nominal_env = 5"
    by (simp_all add: nominal_env_def)
  show ?thesis
    using C1_gain_scaling_version_gated [OF a, of 10] C1_gain_scaling_version_gated [OF b, of 10]
    by (simp add: v)
qed

subsection \<open>C2: a notification that arrived before the wait\<close>

text \<open>
  C2 at a concrete input: the callback has stored "running" before the wait is
  called, and nothing happens during the wait. The call returns \<open>True\<close>, so there
  is no false timeout, but only after it has been blocked for its full timeout of
  100 ms: \<^verbatim>\<open>wait_for\<close> is called before the flag is looked at.
\<close>

theorem C2_blocks_full_timeout:
  "returned (waitForProgramRunning 100 (fst (handleRobotProgramState True False)) []) = True \<and>
   blocked_ms (waitForProgramRunning 100 (fst (handleRobotProgramState True False)) []) = 100"
  by (simp add: waitForProgramRunning_def handleRobotProgramState_def)

subsection \<open>C3: what the notification does to the flag\<close>

text \<open>
  C3, as stated, at a concrete input: the flag is \<open>True\<close> (Running) and the callback
  is invoked with \<open>False\<close>. The flag stays \<open>True\<close>; it does not become the
  notified value.
\<close>

theorem C3_false_notification_keeps_running:
  "fst (handleRobotProgramState False True) \<noteq> False"
  by (simp add: handleRobotProgramState_def)

text \<open>
  C3, amended: after the callback is invoked with value \<open>b\<close> the flag is \<open>b\<close> or
  its previous value, and a waiter is woken exactly when \<open>b\<close> is \<open>True\<close>. So a
  notification with value \<open>True\<close> drives the transition to Running, and a
  notification with value \<open>False\<close> leaves the flag as it was.
\<close>

theorem C3_handler_sets_only_running:
  "handleRobotProgramState b g = (b \<or> g, b)"
  by (simp add: handleRobotProgramState_def)

subsection \<open>C4: no force-mode start after a failed readiness wait\<close>

text \<open>
  C4. In every run in which the readiness wait is reached and returns \<open>False\<close>,
  \<^verbatim>\<open>main\<close> logs "External Control script not running." and exits with code 1
  right after the wait; the trace of the run holds no force-mode start call.
\<close>

theorem C4_no_mode_start_without_running:
  assumes "second_to_run_of e argv = Some s" and "connect_result e" and "commandStop_result e"
    and "\<not> returned (wait_in_main e)"
  shows "main fuel e argv =
           Exit 1 (trace_before_wait e argv @
                   [WaitForProgramRunning 100 False,
                    LogError ''External Control script not running.'']) \<and>
         mode_starts (trace (main fuel e argv)) = []"
proof -
  have m: "main fuel e argv = wait_stage fuel e s (trace_before_wait e argv)"
    using assms by (simp add: main_reaches_wait)
  show ?thesis
    using assms(4) by (simp add: m wait_stage_def mode_starts_append mode_starts_before_wait)
qed

theorem C4_no_mode_start_without_running_witness:
  "main 10 (nominal_env\<lparr>wait_events := []\<rparr>) [''prog''] =
     Exit 1 (trace_before_wait (nominal_env\<lparr>wait_events := []\<rparr>) [''prog''] @
             [WaitForProgramRunning 100 False,
              LogError ''External Control script not running.'']) \<and>
   mode_starts (trace (main 10 (nominal_env\<lparr>wait_events := []\<rparr>) [''prog''])) = []"
proof -
  have a: "second_to_run_of (nominal_env\<lparr>wait_events := []\<rparr>) [''prog''] = Some 0"
    "connect_result (nominal_env\<lparr>wait_events := []\<rparr>)"
    "commandStop_result (nominal_env\<lparr>wait_events := []\<rparr>)"
    "\<not> returned (wait_in_main (nominal_env\<lparr>wait_events := []\<rparr>))"
    by (simp_all add: run_eval)
  show ?thesis by (rule C4_no_mode_start_without_running [OF a])
qed

subsection \<open>C5: exit codes\<close>

text \<open>
  C5. Provided the run-duration argument parses, \<^verbatim>\<open>main\<close> exits with code 1 when
  the dashboard connection fails, when the stop command fails, when the readiness wait
  returns \<open>False\<close>, and when the force-mode start fails; it exits with code 0, after
  "Timeout reached." and the end of force mode, when the heartbeat loop leaves after
  some number \<open>n\<close> of iterations. \<^verbatim>\<open>sendFreedriveMessageOrDie\<close> calls
  \<^verbatim>\<open>exit(1)\<close> when the control message is rejected and returns otherwise.
\<close>

theorem C5_exit_codes:
  assumes "second_to_run_of e argv = Some s"
  shows "(\<not> connect_result e \<longrightarrow> exit_code (main fuel e argv) = Some 1) \<and>
         (connect_result e \<and> \<not> commandStop_result e \<longrightarrow> exit_code (main fuel e argv) = Some 1) \<and>
         (connect_result e \<and> commandStop_result e \<and> \<not> returned (wait_in_main e) \<longrightarrow>
            exit_code (main fuel e argv) = Some 1) \<and>
         (connect_result e \<and> commandStop_result e \<and> returned (wait_in_main e) \<and>
          \<not> startForceMode_result e \<longrightarrow> exit_code (main fuel e argv) = Some 1) \<and>
         (connect_result e \<and> commandStop_result e \<and> returned (wait_in_main e) \<and>
          startForceMode_result e \<and>
          heartbeat_loop fuel e (real_of_int s) s 0 0 = Some n \<longrightarrow>
            main fuel e argv =
              Exit 0 (trace_before_heartbeat e argv @ loop_events e n @
                      [LogInfo ''Timeout reached.'', EndForceMode (endForceMode_result e)])) \<and>
         snd (sendFreedriveMessageOrDie False) = Some 1 \<and>
         snd (sendFreedriveMessageOrDie True) = None"
proof -
  have c1: "\<not> connect_result e \<longrightarrow> exit_code (main fuel e argv) = Some 1"
    using assms by (simp add: main_def dashboard_stage_def)
  have c2: "connect_result e \<and> \<not> commandStop_result e \<longrightarrow> exit_code (main fuel e argv) = Some 1"
    using assms by (simp add: main_def dashboard_stage_def)
  have c3: "connect_result e \<and> commandStop_result e \<and> \<not> returned (wait_in_main e) \<longrightarrow>
            exit_code (main fuel e argv) = Some 1"
    using assms by (simp add: main_reaches_wait wait_stage_def)
  have c4: "connect_result e \<and> commandStop_result e \<and> returned (wait_in_main e) \<and>
          \<not> startForceMode_result e \<longrightarrow> exit_code (main fuel e argv) = Some 1"
    using assms by (simp add: main_reaches_force_mode force_mode_stage_def)
  have c5: "connect_result e \<and> commandStop_result e \<and> returned (wait_in_main e) \<and>
          startForceMode_result e \<and>
          heartbeat_loop fuel e (real_of_int s) s 0 0 = Some n \<longrightarrow>
            main fuel e argv =
              Exit 0 (trace_before_heartbeat e argv @ loop_events e n @
                      [LogInfo ''Timeout reached.'', EndForceMode (endForceMode_result e)])"
    using assms by (simp add: main_reaches_heartbeat heartbeat_stage_def)
  have c6: "snd (sendFreedriveMessageOrDie False) = Some 1 \<and>
         snd (sendFreedriveMessageOrDie True) = None"
    by (simp add: sendFreedriveMessageOrDie_def)
  show ?thesis using c1 c2 c3 c4 c5 c6 by blast
qed

theorem C5_exit_codes_witness:
  "exit_code (main 10 (nominal_env\<lparr>connect_result := False\<rparr>) [''prog'', ''10.0.0.2'', ''1'']) = Some 1 \<and>
   exit_code (main 10 (nominal_env\<lparr>commandStop_result := False\<rparr>) [''prog'', ''10.0.0.2'', ''1'']) = Some 1 \<and>
   exit_code (main 10 (nominal_env\<lparr>wait_events := []\<rparr>) [''prog'', ''10.0.0.2'', ''1'']) = Some 1 \<and>
   exit_code (main 10 (nominal_env\<lparr>startForceMode_result := False\<rparr>) [''prog'', ''10.0.0.2'', ''1'']) = Some 1 \<and>
   exit_code (main 10 nominal_env [''prog'', ''10.0.0.2'', ''1'']) = Some 0"
proof -
  have s: "second_to_run_of (nominal_env\<lparr>connect_result := False\<rparr>) [''prog'', ''10.0.0.2'', ''1''] = Some 1"
    "second_to_run_of (nominal_env\<lparr>commandStop_result := False\<rparr>) [''prog'', ''10.0.0.2'', ''1''] = Some 1"
    "second_to_run_of (nominal_env\<lparr>wait_events := []\<rparr>) [''prog'', ''10.0.0.2'', ''1''] = Some 1"
    "second_to_run_of (nominal_env\<lparr>startForceMode_result := False\<rparr>) [''prog'', ''10.0.0.2'', ''1''] = Some 1"
    "second_to_run_of nominal_env [''prog'', ''10.0.0.2'', ''1''] = Some 1"
    by (simp_all add: run_eval)
  have l: "heartbeat_loop 10 nominal_env (real_of_int 1) 1 0 0 = Some 2"
    by (simp add: run_eval)
  have c: "\<not> connect_result (nominal_env\<lparr>connect_result := False\<rparr>)"
    "connect_result (nominal_env\<lparr>commandStop_result := False\<rparr>) \<and>
     \<not> commandStop_result (nominal_env\<lparr>commandStop_result := False\<rparr>)"
    "connect_result (nominal_env\<lparr>wait_events := []\<rparr>) \<and>
     commandStop_result (nominal_env\<lparr>wait_events := []\<rparr>) \<and>
     \<not> returned (wait_in_main (nominal_env\<lparr>wait_events := []\<rparr>))"
    "connect_result (nominal_env\<lparr>startForceMode_result := False\<rparr>) \<and>
     commandStop_result (nominal_env\<lparr>startForceMode_result := False\<rparr>) \<and>
     returned (wait_in_main (nominal_env\<lparr>startForceMode_result := False\<rparr>)) \<and>
     \<not> startForceMode_result (nominal_env\<lparr>startForceMode_result := False\<rparr>)"
    "connect_result nominal_env \<and> commandStop_result nominal_env \<and>
     returned (wait_in_main nominal_env) \<and> startForceMode_result nominal_env"
    by (simp_all add: run_eval)
  have "exit_code (main 10 (nominal_env\<lparr>connect_result := False\<rparr>) [''prog'', ''10.0.0.2'', ''1'']) = Some 1"
    using C5_exit_codes [OF s(1), of 10] c(1) by blast
  moreover have "exit_code (main 10 (nominal_env\<lparr>commandStop_result := False\<rparr>) [''prog'', ''10.0.0.2'', ''1'']) = Some 1"
    using C5_exit_codes [OF s(2), of 10] c(2) by blast
  moreover have "exit_code (main 10 (nominal_env\<lparr>wait_events := []\<rparr>) [''prog'', ''10.0.0.2'', ''1'']) = Some 1"
    using C5_exit_codes [OF s(3), of 10] c(3) by blast
  moreover have "exit_code (main 10 (nominal_env\<lparr>startForceMode_result := False\<rparr>) [''prog'', ''10.0.0.2'', ''1'']) = Some 1"
    using C5_exit_codes [OF s(4), of 10] c(4) by blast
  moreover have "exit_code (main 10 nominal_env [''prog'', ''10.0.0.2'', ''1'']) = Some 0"
    using C5_exit_codes [OF s(5), where fuel = 10 and n = 2] c(5) l by simp
  ultimately show ?thesis by blast
qed

subsection \<open>C6: results that are not looked at\<close>

text \<open>
  C6 at a concrete run: every call succeeds except that each \<^verbatim>\<open>writeKeepalive\<close>
  and the final \<^verbatim>\<open>endForceMode\<close> return \<open>False\<close>; the run duration is one
  second. \<^verbatim>\<open>main\<close> goes on sending keepalives, ends force mode, logs no error and
  exits with code 0: the failures are not reflected in anything it does.
\<close>

theorem C6_keepalive_failure_ignored:
  "exit_code (main 10 (nominal_env\<lparr>writeKeepalive_result := (\<lambda>k. False), endForceMode_result := False\<rparr>)
                [''prog'', ''192.168.56.101'', ''1'']) = Some 0 \<and>
   filter is_keepalive
     (trace (main 10 (nominal_env\<lparr>writeKeepalive_result := (\<lambda>k. False), endForceMode_result := False\<rparr>)
                [''prog'', ''192.168.56.101'', ''1''])) = [WriteKeepalive False, WriteKeepalive False] \<and>
   last (trace (main 10 (nominal_env\<lparr>writeKeepalive_result := (\<lambda>k. False), endForceMode_result := False\<rparr>)
                [''prog'', ''192.168.56.101'', ''1''])) = EndForceMode False \<and>
   filter is_error_report
     (trace (main 10 (nominal_env\<lparr>writeKeepalive_result := (\<lambda>k. False), endForceMode_result := False\<rparr>)
                [''prog'', ''192.168.56.101'', ''1''])) = []"
  by (simp add: run_eval)

subsection \<open>C7: the heartbeat loop\<close>



subsection \<open>C8: the wait without a notification\<close>

text \<open>
  C8 at a concrete input: the flag is \<open>False\<close>, no notification arrives, and the
  condition variable wakes the waiter spuriously 10 ms into a wait of 100 ms. The call
  ends within the timeout, but it returns \<open>True\<close> although the flag is still
  \<open>False\<close>.
\<close>

theorem C8_spurious_wakeup_returns_true:
  "returned (waitForProgramRunning 100 False [(10, SpuriousWakeup)]) = True \<and>
   running_after (waitForProgramRunning 100 False [(10, SpuriousWakeup)]) = False \<and>
   blocked_ms (waitForProgramRunning 100 False [(10, SpuriousWakeup)]) = 10"
  by (simp add: waitForProgramRunning_def)

subsection \<open>C9: a calibration mismatch is reported and nothing else\<close>

text \<open>
  C9. In every run that reaches the calibration check and finds a mismatch,
  \<^verbatim>\<open>main\<close> logs the two error messages of lines 158 to 162 right after the check
  and goes on to the readiness wait. The errors logged in the whole run are these two
  followed by the errors of the same run without the mismatch, the exit code is the one
  of the run without the mismatch, the two traces differ in the calibration events
  only, and the force-mode start is made exactly when the readiness wait returns
  \<open>True\<close>.
\<close>

theorem C9_calibration_mismatch_not_fatal:
  assumes "second_to_run_of e argv = Some s" and "connect_result e" and "commandStop_result e"
    and "\<not> checkCalibration_result e"
  shows "main fuel e argv =
           wait_stage fuel e s
             [DashboardConnect (robot_ip_of argv) True, CommandStop True,
              CreateDriver (robot_ip_of argv) SCRIPT_FILE OUTPUT_RECIPE INPUT_RECIPE True,
              CheckCalibration ''calib_12788084448423163542'' False,
              LogError ''Calibration checksum does not match actual robot.'',
              LogError ''Use the ur_calibration tool to extract the correct calibration from the robot and pass that into the description. See [https://github.com/UniversalRobots/Universal_Robots_ROS_Driver#extract-calibration-information] for details.''] \<and>
         filter is_error_report (trace (main fuel e argv)) =
           [LogError ''Calibration checksum does not match actual robot.'',
            LogError ''Use the ur_calibration tool to extract the correct calibration from the robot and pass that into the description. See [https://github.com/UniversalRobots/Universal_Robots_ROS_Driver#extract-calibration-information] for details.'']
           @ filter is_error_report (trace (main fuel (e\<lparr>checkCalibration_result := True\<rparr>) argv)) \<and>
         exit_code (main fuel e argv) =
           exit_code (main fuel (e\<lparr>checkCalibration_result := True\<rparr>) argv) \<and>
         filter (\<lambda>ev. \<not> is_calibration_event ev) (trace (main fuel e argv)) =
           filter (\<lambda>ev. \<not> is_calibration_event ev)
             (trace (main fuel (e\<lparr>checkCalibration_result := True\<rparr>) argv)) \<and>
         mode_starts (trace (main fuel e argv)) =
           (if returned (wait_in_main e) then [startForceMode_call (version_major e)] else [])"
proof -
  let ?e' = "e\<lparr>checkCalibration_result := True\<rparr>"
  have m: "main fuel e argv = wait_stage fuel e s (trace_before_wait e argv)"
    using assms by (simp add: main_reaches_wait)
  have "second_to_run_of ?e' argv = second_to_run_of e argv"
    by (simp add: second_to_run_of_def)
  then have s': "second_to_run_of ?e' argv = Some s"
    using assms(1) by simp
  have m': "main fuel ?e' argv = wait_stage fuel e s (trace_before_wait ?e' argv)"
    using s' assms(2,3) by (simp add: main_reaches_wait wait_stage_calibration_independent)
  have first: "main fuel e argv =
           wait_stage fuel e s
             [DashboardConnect (robot_ip_of argv) True, CommandStop True,
              CreateDriver (robot_ip_of argv) SCRIPT_FILE OUTPUT_RECIPE INPUT_RECIPE True,
              CheckCalibration ''calib_12788084448423163542'' False,
              LogError ''Calibration checksum does not match actual robot.'',
              LogError ''Use the ur_calibration tool to extract the correct calibration from the robot and pass that into the description. See [https://github.com/UniversalRobots/Universal_Robots_ROS_Driver#extract-calibration-information] for details.'']"
    using assms
    by (simp add: m trace_before_wait_def calibration_report_def CALIBRATION_CHECKSUM_def)
  have errs: "filter is_error_report (trace_before_wait e argv) =
           [LogError ''Calibration checksum does not match actual robot.'',
            LogError ''Use the ur_calibration tool to extract the correct calibration from the robot and pass that into the description. See [https://github.com/UniversalRobots/Universal_Robots_ROS_Driver#extract-calibration-information] for details.'']
           @ filter is_error_report (trace_before_wait ?e' argv)"
    using assms(4) by (simp add: trace_before_wait_def calibration_report_def)
  have reports: "filter is_error_report (trace (main fuel e argv)) =
           [LogError ''Calibration checksum does not match actual robot.'',
            LogError ''Use the ur_calibration tool to extract the correct calibration from the robot and pass that into the description. See [https://github.com/UniversalRobots/Universal_Robots_ROS_Driver#extract-calibration-information] for details.'']
           @ filter is_error_report (trace (main fuel ?e' argv))"
    using errs
    by (simp add: m m' wait_stage_prepend [of _ _ _ "trace_before_wait _ _"] trace_prepend)
  have code: "exit_code (main fuel e argv) = exit_code (main fuel ?e' argv)"
    by (simp add: m m' wait_stage_prepend [of _ _ _ "trace_before_wait _ _"] exit_code_prepend)
  have pre: "filter (\<lambda>ev. \<not> is_calibration_event ev) (trace_before_wait e argv) =
             filter (\<lambda>ev. \<not> is_calibration_event ev) (trace_before_wait ?e' argv)"
    by (simp add: trace_before_wait_def calibration_report_def)
  have tr: "filter (\<lambda>ev. \<not> is_calibration_event ev) (trace (main fuel e argv)) =
           filter (\<lambda>ev. \<not> is_calibration_event ev) (trace (main fuel ?e' argv))"
    using pre
    by (simp add: m m' wait_stage_prepend [of _ _ _ "trace_before_wait _ _"] trace_prepend)
  have starts: "mode_starts (trace (main fuel e argv)) =
           (if returned (wait_in_main e) then [startForceMode_call (version_major e)] else [])"
    by (simp add: m mode_starts_wait_stage mode_starts_before_wait)
  show ?thesis using first reports code tr starts by blast
qed

theorem C9_calibration_mismatch_not_fatal_witness:
  "filter is_error_report
     (trace (main 10 (nominal_env\<lparr>checkCalibration_result := False\<rparr>)
               [''prog'', ''192.168.56.101'', ''1''])) =
     [LogError ''Calibration checksum does not match actual robot.'',
      LogError ''Use the ur_calibration tool to extract the correct calibration from the robot and pass that into the description. See [https://github.com/UniversalRobots/Universal_Robots_ROS_Driver#extract-calibration-information] for details.''] \<and>
   exit_code (main 10 (nominal_env\<lparr>checkCalibration_result := False\<rparr>)
                [''prog'', ''192.168.56.101'', ''1'']) = Some 0 \<and>
   mode_starts (trace (main 10 (nominal_env\<lparr>checkCalibration_result := False\<rparr>)
                         [''prog'', ''192.168.56.101'', ''1''])) = [startForceMode_call 5]"
proof -
  let ?e = "nominal_env\<lparr>checkCalibration_result := False\<rparr>"
  have a: "second_to_run_of ?e [''prog'', ''192.168.56.101'', ''1''] = Some 1"
    "connect_result ?e" "commandStop_result ?e" "\<not> checkCalibration_result ?e"
    by (simp_all add: run_eval)
  have u: "?e\<lparr>checkCalibration_result := True\<rparr> = nominal_env"
    by (simp add: nominal_env_def)
  have n: "exit_code (main 10 nominal_env [''prog'', ''192.168.56.101'', ''1'']) = Some 0"
    by (simp add: run_eval)
  have q: "filter is_error_report (trace (main 10 nominal_env [''prog'', ''192.168.56.101'', ''1''])) = []"
    by (simp add: run_eval)
  have w: "returned (wait_in_main ?e)" "version_major ?e = 5"
    by (simp_all add: run_eval)
  note t = C9_calibration_mismatch_not_fatal [OF a, of 10]
  have "filter is_error_report (trace (main 10 ?e [''prog'', ''192.168.56.101'', ''1''])) =
     [LogError ''Calibration checksum does not match actual robot.'',
      LogError ''Use the ur_calibration tool to extract the correct calibration from the robot and pass that into the description. See [https://github.com/UniversalRobots/Universal_Robots_ROS_Driver#extract-calibration-information] for details.'']"
    using t [THEN conjunct2, THEN conjunct1] by (simp only: u q append_Nil2)
  moreover have "exit_code (main 10 ?e [''prog'', ''192.168.56.101'', ''1'']) = Some 0"
    using t [THEN conjunct2, THEN conjunct2, THEN conjunct1] by (simp only: u n)
  moreover have "mode_starts (trace (main 10 ?e [''prog'', ''192.168.56.101'', ''1''])) =
     [startForceMode_call 5]"
    using t [THEN conjunct2, THEN conjunct2, THEN conjunct2, THEN conjunct2] w
    by (simp only: if_True)
  ultimately show ?thesis by blast
qed

subsection \<open>C10: the two call sites differ in the gain-scaling argument only\<close>

text \<open>
  C10. The call made for a major version below 5 and the call made for a major version
  of 5 or above pass the same task frame, selection vector, wrench, type, limits and
  damping factor; the first has no gain-scaling argument, and the second is the first
  with the gain-scaling argument 1.0 added.
\<close>

theorem C10_branches_differ_in_gain_only:
  "major1 < 5 \<Longrightarrow> 5 \<le> major2 \<Longrightarrow>
   task_frame (startForceMode_call major1) = task_frame (startForceMode_call major2) \<and>
   selection_vector (startForceMode_call major1) = selection_vector (startForceMode_call major2) \<and>
   wrench (startForceMode_call major1) = wrench (startForceMode_call major2) \<and>
   force_type (startForceMode_call major1) = force_type (startForceMode_call major2) \<and>
   limits (startForceMode_call major1) = limits (startForceMode_call major2) \<and>
   damping_factor (startForceMode_call major1) = damping_factor (startForceMode_call major2) \<and>
   gain_scaling (startForceMode_call major1) = None \<and>
   startForceMode_call major2 = (startForceMode_call major1)\<lparr>gain_scaling := Some 1\<rparr>"
  by (simp add: startForceMode_call_def)

theorem C10_branches_differ_in_gain_only_witness:
  "task_frame (startForceMode_call 3) = task_frame (startForceMode_call 5) \<and>
   selection_vector (startForceMode_call 3) = selection_vector (startForceMode_call 5) \<and>
   wrench (startForceMode_call 3) = wrench (startForceMode_call 5) \<and>
   force_type (startForceMode_call 3) = force_type (startForceMode_call 5) \<and>
   limits (startForceMode_call 3) = limits (startForceMode_call 5) \<and>
   damping_factor (startForceMode_call 3) = damping_factor (startForceMode_call 5) \<and>
   gain_scaling (startForceMode_call 3) = None \<and>
   startForceMode_call 5 = (startForceMode_call 3)\<lparr>gain_scaling := Some 1\<rparr>"
proof -
  have a: "(3::nat) < 5" by simp
  have b: "(5::nat) \<le> 5" by simp
  show ?thesis by (rule C10_branches_differ_in_gain_only [OF a b])
qed

end
